theory Spec2Isabelle
  imports Complex_Main "HOL-Library.Multiset"
begin

section \<open>Athena: confidence scoring and the allocation engine\<close>

text \<open>
  A shallow embedding of \<^verbatim>\<open>services/analysis\<close> (confidence scoring) and
  \<^verbatim>\<open>services/engine\<close> (regime detection, allocation, recommendations).

  Conventions of the embedding.
  \<^item> Go's \<^verbatim>\<open>float64\<close> is the type \<open>real\<close>: the arithmetic is exact; rounding,
    infinities and NaN are outside the model. Comparisons with the literals
    \<^verbatim>\<open>0.4\<close>, \<^verbatim>\<open>0.6\<close>, \<^verbatim>\<open>0.8\<close> are comparisons with the rationals 2/5, 3/5, 4/5.
  \<^item> Go's \<^verbatim>\<open>int64\<close> volumes are \<open>int\<close>: they are only compared with 0 and
    converted to \<^verbatim>\<open>float64\<close>, so no wrap-around can occur. The loop counters
    (\<^verbatim>\<open>int\<close>, starting at 0 and only incremented) and \<^verbatim>\<open>len\<close> are \<open>nat\<close>.
  \<^item> A Go \<^verbatim>\<open>map\<close> that is only ranged over is the list of its entries in the order
    of the iteration (keys distinct); \<^verbatim>\<open>len\<close> is the length of that list.
  \<^item> \<^verbatim>\<open>fmt.Sprintf\<close> is kept unrendered: a text is the list of its literal pieces
    and of the numbers printed with \<^verbatim>\<open>%.0f\<close> or \<^verbatim>\<open>%.2f\<close>.
  \<^item> Record fields carry a prefix where two Go structs share a field name
    (\<open>w\<close> for \<^verbatim>\<open>ConfidenceWeights\<close>, \<open>r\<close> for \<^verbatim>\<open>Recommendation\<close>,
    \<open>in\<close> for \<^verbatim>\<open>ConfidenceInputs\<close>).
\<close>

subsection \<open>Formatted text\<close>

datatype fmt_piece =
    Lit string    \<comment> \<open>literal text of the format string\<close>
  | F0 real       \<comment> \<open>a \<^verbatim>\<open>float64\<close> printed with \<^verbatim>\<open>%.0f\<close>\<close>
  | F2 real       \<comment> \<open>a \<^verbatim>\<open>float64\<close> printed with \<^verbatim>\<open>%.2f\<close>\<close>

type_synonym fmt_text = "fmt_piece list"

subsection \<open>Package analysis: data\<close>

record ConfidenceWeights =
  wCreatorConsensus :: real
  wTechnicalAlignment :: real
  wVolumeConfirmation :: real
  wHistoricalAccuracy :: real

definition DefaultWeights :: ConfidenceWeights where
  "DefaultWeights =
     \<lparr> wCreatorConsensus = 0.30,
       wTechnicalAlignment = 0.30,
       wVolumeConfirmation = 0.20,
       wHistoricalAccuracy = 0.20 \<rparr>"

record ConfidenceInputs =
  inTicker :: string
  CreatorSentiments :: "(string \<times> string) list"
  TechnicalSignals :: "string list"
  CurrentVolume :: int
  AvgVolume :: int
  CreatorAccuracyRates :: "(string \<times> real) list"

record ConfidenceScore =
  Overall :: real
  CreatorConsensus :: real
  TechnicalAlignment :: real
  VolumeConfirmation :: real
  HistoricalAccuracy :: real
  Direction :: string
  Breakdown :: fmt_text

subsection \<open>Package analysis: CalculateConfidence\<close>

text \<open>
  The two counting loops: \<^verbatim>\<open>switch\<close> on the label, one counter for
  \<^verbatim>\<open>"bullish"\<close>, one for \<^verbatim>\<open>"bearish"\<close>, any other label counted by neither.
\<close>

fun count_labels :: "string list \<Rightarrow> nat \<times> nat \<Rightarrow> nat \<times> nat" where
  "count_labels [] (bull, bear) = (bull, bear)"
| "count_labels (s # ss) (bull, bear) =
     (if s = ''bullish'' then count_labels ss (bull + 1, bear)
      else if s = ''bearish'' then count_labels ss (bull, bear + 1)
      else count_labels ss (bull, bear))"

text \<open>The loop \<^verbatim>\<open>sum += accuracy\<close> over the accuracy rates.\<close>

fun sum_rates :: "real list \<Rightarrow> real \<Rightarrow> real" where
  "sum_rates [] acc = acc"
| "sum_rates (a # as) acc = sum_rates as (acc + a)"

text \<open>Step 1: creator consensus and direction (direction starts as neutral).\<close>

definition creator_consensus :: "(string \<times> string) list \<Rightarrow> real \<times> string" where
  "creator_consensus sentiments =
     (let totalCreators = length sentiments;
          (bullishCount, bearishCount) = count_labels (map snd sentiments) (0, 0)
      in if totalCreators > 0 then
           (if bullishCount > bearishCount then
              (real bullishCount / real totalCreators, ''bullish'')
            else if bearishCount > bullishCount then
              (real bearishCount / real totalCreators, ''bearish'')
            else (0.5, ''neutral''))
         else (0, ''neutral''))"

text \<open>Step 2: technical alignment with the direction chosen in step 1.\<close>

definition technical_alignment :: "string list \<Rightarrow> string \<Rightarrow> real" where
  "technical_alignment signals direction =
     (let totalSignals = length signals;
          (bullishSignals, bearishSignals) = count_labels signals (0, 0)
      in if totalSignals > 0 then
           (if direction = ''bullish'' then real bullishSignals / real totalSignals
            else if direction = ''bearish'' then real bearishSignals / real totalSignals
            else if bullishSignals > bearishSignals then
              real bullishSignals / real totalSignals
            else real bearishSignals / real totalSignals)
         else 0)"

text \<open>Step 3: volume confirmation, 0.5 unless the average volume is positive.\<close>

definition volume_confirmation :: "int \<Rightarrow> int \<Rightarrow> real" where
  "volume_confirmation currentVolume avgVolume =
     (if avgVolume > 0 then
        (let ratio = real_of_int currentVolume / real_of_int avgVolume
         in if ratio \<ge> 2.0 then 1.0
            else if ratio \<le> 0.5 then 0.0
            else (ratio - 0.5) / 1.5)
      else 0.5)"

text \<open>Step 4: mean of the accuracy rates, 0.5 for an empty map.\<close>

definition historical_accuracy :: "(string \<times> real) list \<Rightarrow> real" where
  "historical_accuracy rates =
     (if length rates > 0 then sum_rates (map snd rates) 0.0 / real (length rates)
      else 0.5)"

definition CalculateConfidence :: "ConfidenceInputs \<Rightarrow> ConfidenceWeights \<Rightarrow> ConfidenceScore" where
  "CalculateConfidence inputs weights =
     (let (consensus, direction) = creator_consensus (CreatorSentiments inputs);
          alignment = technical_alignment (TechnicalSignals inputs) direction;
          volume = volume_confirmation (CurrentVolume inputs) (AvgVolume inputs);
          accuracy = historical_accuracy (CreatorAccuracyRates inputs)
      in \<lparr> Overall = (consensus * wCreatorConsensus weights) +
                     (alignment * wTechnicalAlignment weights) +
                     (volume * wVolumeConfirmation weights) +
                     (accuracy * wHistoricalAccuracy weights),
           CreatorConsensus = consensus,
           TechnicalAlignment = alignment,
           VolumeConfirmation = volume,
           HistoricalAccuracy = accuracy,
           Direction = direction,
           Breakdown =
             [Lit ''Creator: '', F0 (consensus * 100),
              Lit ''% | Technical: '', F0 (alignment * 100),
              Lit ''% | Volume: '', F0 (volume * 100),
              Lit ''% | History: '', F0 (accuracy * 100), Lit ''%''] \<rparr>)"

text \<open>GetTechnicalSignals: up to four signals, each rule skipped when an input is not positive
  (for MACD: is zero).\<close>

definition GetTechnicalSignals :: "real \<Rightarrow> real \<Rightarrow> real \<Rightarrow> real \<Rightarrow> real \<Rightarrow> real \<Rightarrow> string list" where
  "GetTechnicalSignals rsi sma50 sma200 macd macdSignal currentPrice =
     (if rsi > 0 then
        [if rsi < 30 then ''bullish'' else if rsi > 70 then ''bearish'' else ''neutral'']
      else []) @
     (if sma50 > 0 \<and> sma200 > 0 then
        [if sma50 > sma200 then ''bullish'' else ''bearish'']
      else []) @
     (if sma200 > 0 \<and> currentPrice > 0 then
        [if currentPrice > sma200 then ''bullish'' else ''bearish'']
      else []) @
     (if macd \<noteq> 0 \<and> macdSignal \<noteq> 0 then
        [if macd > macdSignal then ''bullish'' else ''bearish'']
      else [])"

subsection \<open>The database as seen by the engine\<close>

text \<open>
  The engine reads everything through \<^verbatim>\<open>database/sql\<close>. The model of the database is
  the outcome of each query the engine issues; every function that touches the database
  also returns the list of the queries it issued, in order.
\<close>

datatype error =
    ErrNoRows                \<comment> \<open>\<^verbatim>\<open>sql.ErrNoRows\<close>\<close>
  | ErrDB string             \<comment> \<open>any other error of the driver\<close>
  | Wrap string error        \<comment> \<open>\<^verbatim>\<open>fmt.Errorf("...: %w", err)\<close>\<close>

record NullFloat64 =
  Float64 :: real
  Valid :: bool

record NullInt64 =
  Int64 :: int
  ValidInt :: bool

text \<open>The zero value of \<^verbatim>\<open>sql.NullFloat64\<close>, left in place when no row is scanned.\<close>

definition zeroNullFloat64 :: NullFloat64 where
  "zeroNullFloat64 = \<lparr> Float64 = 0, Valid = False \<rparr>"

datatype accuracy_rows =
    QueryError error                   \<comment> \<open>\<^verbatim>\<open>QueryContext\<close> failed\<close>
  | ScanError error                    \<comment> \<open>a \<^verbatim>\<open>rows.Scan\<close> failed\<close>
  | RowsError error                    \<comment> \<open>\<^verbatim>\<open>rows.Err()\<close> after the loop\<close>
  | Rows "(string \<times> real) list"       \<comment> \<open>the rows, in order\<close>

datatype query =
    SelectVIX
  | SelectSPYRSI
  | SelectTrackedTickers
  | SelectCreatorSentiments string
  | SelectIndicators string
  | SelectMarketData string
  | SelectVolumeAvg string
  | SelectCreatorAccuracy "string list"

record DB =
  scanVIX :: "error + NullFloat64"
    \<comment> \<open>latest VIX close: the error of \<^verbatim>\<open>Scan\<close>, or the value scanned\<close>
  scanSPYRSI :: "error + NullFloat64"
    \<comment> \<open>latest \<^verbatim>\<open>rsi_14\<close> of SPY\<close>
  scanTrackedTickers :: "error + string"
    \<comment> \<open>the config row \<^verbatim>\<open>tracked_tickers\<close>\<close>
  creatorSentimentRows :: "string \<Rightarrow> error + (string \<times> string) option list"
    \<comment> \<open>rows (creator, sentiment) of a ticker; \<open>None\<close> is a row whose \<^verbatim>\<open>Scan\<close> fails\<close>
  scanIndicators :: "string \<Rightarrow> NullFloat64 \<times> NullFloat64 \<times> NullFloat64 \<times> NullFloat64 \<times> NullFloat64"
    \<comment> \<open>rsi, sma50, sma200, macd, macdSignal after the \<^verbatim>\<open>Scan\<close> whose error is dropped\<close>
  scanMarketData :: "string \<Rightarrow> real \<times> NullInt64"
    \<comment> \<open>currentPrice and currentVolume after the \<^verbatim>\<open>Scan\<close> whose error is dropped\<close>
  scanVolumeAvg :: "string \<Rightarrow> NullInt64"
    \<comment> \<open>avgVolume after the \<^verbatim>\<open>Scan\<close> whose error is dropped\<close>
  creatorAccuracyRows :: "string list \<Rightarrow> accuracy_rows"
    \<comment> \<open>the accuracy query of \<^verbatim>\<open>FetchCreatorAccuracy\<close> for a list of creators\<close>

text \<open>Assignment \<^verbatim>\<open>m[k] = v\<close> on a map kept as the list of its entries.\<close>

fun map_put :: "'k \<Rightarrow> 'v \<Rightarrow> ('k \<times> 'v) list \<Rightarrow> ('k \<times> 'v) list" where
  "map_put k v [] = [(k, v)]"
| "map_put k v ((k', v') # m) =
     (if k' = k then (k, v) # m else (k', v') # map_put k v m)"

subsection \<open>Package analysis: FetchCreatorAccuracy\<close>

fun store_rates :: "(string \<times> real) list \<Rightarrow> (string \<times> real) list \<Rightarrow> (string \<times> real) list" where
  "store_rates [] rates = rates"
| "store_rates ((name, accuracy) # rows) rates = store_rates rows (map_put name accuracy rates)"

fun default_rates :: "string list \<Rightarrow> (string \<times> real) list \<Rightarrow> (string \<times> real) list" where
  "default_rates [] rates = rates"
| "default_rates (creator # creators) rates =
     default_rates creators
       (if map_of rates creator = None then map_put creator 0.5 rates else rates)"

definition FetchCreatorAccuracy ::
  "DB \<Rightarrow> string list \<Rightarrow> (error + (string \<times> real) list) \<times> query list" where
  "FetchCreatorAccuracy d creators =
     (if length creators = 0 then (Inr [], [])
      else
        (case creatorAccuracyRows d creators of
           QueryError err \<Rightarrow> (Inl (Wrap ''query accuracy'' err), [SelectCreatorAccuracy creators])
         | ScanError err \<Rightarrow> (Inl (Wrap ''scan row'' err), [SelectCreatorAccuracy creators])
         | RowsError err \<Rightarrow> (Inl (Wrap ''iterate rows'' err), [SelectCreatorAccuracy creators])
         | Rows rows \<Rightarrow>
             (Inr (default_rates creators (store_rates rows [])),
              [SelectCreatorAccuracy creators])))"

subsection \<open>Package engine: data\<close>

type_synonym MarketRegime = string

abbreviation RegimeCalm :: MarketRegime where "RegimeCalm \<equiv> ''calm''"
abbreviation RegimeVolatile :: MarketRegime where "RegimeVolatile \<equiv> ''volatile''"
abbreviation RegimeBullish :: MarketRegime where "RegimeBullish \<equiv> ''bullish''"
abbreviation RegimeBearish :: MarketRegime where "RegimeBearish \<equiv> ''bearish''"

record Recommendation =
  rTicker :: string
  rAction :: string
  rAmount :: real
  rConfidenceScore :: real
  rReasoning :: fmt_text
  rMarketRegime :: MarketRegime
  rVIXLevel :: real

record Engine =
  db :: DB
  vixHighThreshold :: real
  rsiOverbought :: real
  rsiOversold :: real

record Config =
  VIXHighThreshold :: real
  RSIOverbought :: real
  RSIOversold :: real

definition DefaultConfig :: Config where
  "DefaultConfig =
     \<lparr> VIXHighThreshold = 25.0,
       RSIOverbought = 70.0,
       RSIOversold = 30.0 \<rparr>"

definition NewEngine :: "DB \<Rightarrow> Config \<Rightarrow> Engine" where
  "NewEngine d cfg =
     \<lparr> db = d,
       vixHighThreshold = VIXHighThreshold cfg,
       rsiOverbought = RSIOverbought cfg,
       rsiOversold = RSIOversold cfg \<rparr>"

record AllocationResult =
  Action :: string
  Amount :: real
  Reasoning :: fmt_text

subsection \<open>Package engine: detectMarketRegime\<close>

text \<open>
  The result is the triple (regime, VIX level, error) of the Go function. The RSI of SPY is
  only queried when the VIX level does not exceed the threshold.
\<close>

definition detectMarketRegime :: "Engine \<Rightarrow> (MarketRegime \<times> real \<times> error option) \<times> query list" where
  "detectMarketRegime e =
     (case (case scanVIX (db e) of
              Inl err \<Rightarrow> if err \<noteq> ErrNoRows then Inl err else Inr zeroNullFloat64
            | Inr v \<Rightarrow> Inr v) of
        Inl err \<Rightarrow> ((RegimeCalm, 0, Some (Wrap ''query VIX'' err)), [SelectVIX])
      | Inr vix \<Rightarrow>
          (let vixLevel = (if Valid vix then Float64 vix else 0.0)
           in if vixLevel > vixHighThreshold e then
                ((RegimeVolatile, vixLevel, None), [SelectVIX])
              else
                (case scanSPYRSI (db e) of
                   Inr rsi \<Rightarrow>
                     (if Valid rsi then
                        (if Float64 rsi > rsiOverbought e then
                           ((RegimeBearish, vixLevel, None), [SelectVIX, SelectSPYRSI])
                         else if Float64 rsi < rsiOversold e then
                           ((RegimeBullish, vixLevel, None), [SelectVIX, SelectSPYRSI])
                         else ((RegimeCalm, vixLevel, None), [SelectVIX, SelectSPYRSI]))
                      else ((RegimeCalm, vixLevel, None), [SelectVIX, SelectSPYRSI]))
                 | Inl err \<Rightarrow> ((RegimeCalm, vixLevel, None), [SelectVIX, SelectSPYRSI]))))"

subsection \<open>Package engine: getTrackedTickers\<close>

text \<open>The configured value is read but not parsed: the default tickers are returned.\<close>

definition getTrackedTickers :: "Engine \<Rightarrow> (error + string list) \<times> query list" where
  "getTrackedTickers e =
     (let defaultTickers = [''SPY'', ''QQQ'', ''VOO'', ''VTI'']
      in case scanTrackedTickers (db e) of
           Inl err \<Rightarrow>
             (if err = ErrNoRows then (Inr defaultTickers, [SelectTrackedTickers])
              else (Inl (Wrap ''query config'' err), [SelectTrackedTickers]))
         | Inr tickersJSON \<Rightarrow> (Inr defaultTickers, [SelectTrackedTickers]))"

subsection \<open>Package engine: getTickerConfidenceScore\<close>

fun collect_sentiments ::
  "(string \<times> string) option list \<Rightarrow> (string \<times> string) list \<Rightarrow> (string \<times> string) list" where
  "collect_sentiments [] creatorSentiments = creatorSentiments"
| "collect_sentiments (None # rows) creatorSentiments = collect_sentiments rows creatorSentiments"
| "collect_sentiments (Some (creator, sentiment) # rows) creatorSentiments =
     collect_sentiments rows (map_put creator sentiment creatorSentiments)"

definition getTickerConfidenceScore ::
  "Engine \<Rightarrow> string \<Rightarrow> (error + ConfidenceScore) \<times> query list" where
  "getTickerConfidenceScore e ticker =
     (let creatorSentiments =
            (case creatorSentimentRows (db e) ticker of
               Inr rows \<Rightarrow> collect_sentiments rows []
             | Inl err \<Rightarrow> []);
          (rsi, sma50, sma200, macd, macdSignal) = scanIndicators (db e) ticker;
          (currentPrice, currentVolume) = scanMarketData (db e) ticker;
          avgVolume = scanVolumeAvg (db e) ticker;
          technicalSignals =
            (if Valid rsi then
               GetTechnicalSignals (Float64 rsi) (Float64 sma50) (Float64 sma200)
                 (Float64 macd) (Float64 macdSignal) currentPrice
             else []);
          creators = map fst creatorSentiments;
          (fetched, qs) = FetchCreatorAccuracy (db e) creators;
          accuracyRates = (case fetched of Inr rates \<Rightarrow> rates | Inl err \<Rightarrow> []);
          inputs =
            \<lparr> inTicker = ticker,
              CreatorSentiments = creatorSentiments,
              TechnicalSignals = technicalSignals,
              CurrentVolume = Int64 currentVolume,
              AvgVolume = Int64 avgVolume,
              CreatorAccuracyRates = accuracyRates \<rparr>;
          score = CalculateConfidence inputs DefaultWeights
      in (Inr score,
          [SelectCreatorSentiments ticker, SelectIndicators ticker, SelectMarketData ticker,
           SelectVolumeAvg ticker] @ qs))"

subsection \<open>Package engine: calculateAllocation\<close>

definition coreHoldings :: "string \<rightharpoonup> real" where
  "coreHoldings =
     [''SPY'' \<mapsto> 0.40,
      ''QQQ'' \<mapsto> 0.30,
      ''VOO'' \<mapsto> 0.20,
      ''VTI'' \<mapsto> 0.10]"

definition calculateAllocation ::
  "Engine \<Rightarrow> string \<Rightarrow> ConfidenceScore \<Rightarrow> real \<Rightarrow> MarketRegime \<Rightarrow> AllocationResult" where
  "calculateAllocation e ticker score budget regime =
     (case coreHoldings ticker of
        None \<Rightarrow>
          (if Overall score < 0.6 then
             \<lparr> Action = ''wait'',
               Amount = 0,
               Reasoning = [Lit ''Confidence too low ('', F0 (Overall score * 100),
                            Lit ''%) for risk allocation''] \<rparr>
           else
             \<lparr> Action = ''buy'',
               Amount = budget * 0.10,
               Reasoning = [Lit ''Risk allocation approved ('', F0 (Overall score * 100),
                            Lit ''% confidence)''] \<rparr>)
      | Some baseAllocation \<Rightarrow>
          (let amount = budget * baseAllocation
           in if Overall score < 0.4 then
                \<lparr> Action = ''buy'',
                  Amount = amount * 0.25,
                  Reasoning = [Lit ''Reduced allocation due to low confidence ('',
                               F0 (Overall score * 100), Lit ''%)''] \<rparr>
              else if Overall score < 0.6 then
                \<lparr> Action = ''buy'',
                  Amount = amount * 0.5,
                  Reasoning = [Lit ''Reduced allocation due to moderate confidence ('',
                               F0 (Overall score * 100), Lit ''%)''] \<rparr>
              else if regime = RegimeBearish then
                \<lparr> Action = ''buy'',
                  Amount = amount * 0.75,
                  Reasoning = [Lit ''Bearish regime - conservative allocation ('',
                               F0 (Overall score * 100), Lit ''% confidence)''] \<rparr>
              else if regime = RegimeBullish \<and> Overall score > 0.8 then
                \<lparr> Action = ''buy'',
                  Amount = (if amount * 1.1 > budget * baseAllocation * 1.2
                            then budget * baseAllocation * 1.2 else amount * 1.1),
                  Reasoning = [Lit ''Bullish regime with high confidence ('',
                               F0 (Overall score * 100), Lit ''%) - increased allocation''] \<rparr>
              else
                \<lparr> Action = ''buy'',
                  Amount = amount,
                  Reasoning = [Lit ''Standard allocation ('', F0 (Overall score * 100),
                               Lit ''% confidence)''] \<rparr>))"

subsection \<open>Package engine: GenerateRecommendations\<close>

text \<open>The loop over the tracked tickers; a ticker whose score fails is skipped.\<close>

fun recommend_tickers ::
  "Engine \<Rightarrow> real \<Rightarrow> MarketRegime \<Rightarrow> real \<Rightarrow> string list \<Rightarrow>
   Recommendation list \<times> query list \<Rightarrow> Recommendation list \<times> query list" where
  "recommend_tickers e budget regime vix [] (recommendations, qs) = (recommendations, qs)"
| "recommend_tickers e budget regime vix (ticker # tickers) (recommendations, qs) =
     (case getTickerConfidenceScore e ticker of
        (Inl err, qs') \<Rightarrow>
          recommend_tickers e budget regime vix tickers (recommendations, qs @ qs')
      | (Inr score, qs') \<Rightarrow>
          (let allocation = calculateAllocation e ticker score budget regime
           in recommend_tickers e budget regime vix tickers
                (recommendations @
                   [\<lparr> rTicker = ticker,
                      rAction = Action allocation,
                      rAmount = Amount allocation,
                      rConfidenceScore = Overall score,
                      rReasoning = Reasoning allocation,
                      rMarketRegime = regime,
                      rVIXLevel = vix \<rparr>],
                 qs @ qs')))"

definition GenerateRecommendations ::
  "Engine \<Rightarrow> real \<Rightarrow> (error + Recommendation list) \<times> query list" where
  "GenerateRecommendations e budget =
     (let ((regime0, vix0, err), qs1) = detectMarketRegime e;
          (regime, vix) = (if err \<noteq> None then (RegimeCalm, 0) else (regime0, vix0))
      in if regime = RegimeVolatile then
           (Inr [\<lparr> rTicker = [],
                   rAction = ''wait'',
                   rAmount = 0,
                   rConfidenceScore = 0,
                   rReasoning = [Lit ''High volatility detected (VIX: '', F2 vix,
                                 Lit ''). Wait 2-3 days for market to stabilize.''],
                   rMarketRegime = regime,
                   rVIXLevel = vix \<rparr>],
            qs1)
         else
           (case getTrackedTickers e of
              (Inl err, qs2) \<Rightarrow> (Inl (Wrap ''get tracked tickers'' err), qs1 @ qs2)
            | (Inr tickers, qs2) \<Rightarrow>
                (let (recommendations, qs3) =
                       recommend_tickers e budget regime vix tickers ([], qs1 @ qs2)
                 in (Inr recommendations, qs3))))"

subsection \<open>The decision order of the regime detector\<close>

text \<open>
  The RSI of SPY as the detector uses it: absent when the query fails, finds no row or
  yields NULL.
\<close>

definition spyRSI :: "DB \<Rightarrow> real option" where
  "spyRSI d =
     (case scanSPYRSI d of
        Inr rsi \<Rightarrow> if Valid rsi then Some (Float64 rsi) else None
      | Inl err \<Rightarrow> None)"

text \<open>
  Steps 2 to 5 of the decision order in the words of the specification, for a VIX level and
  an optional RSI: above the high threshold volatile; else RSI above the overbought
  threshold bearish; else RSI below the oversold threshold bullish; otherwise calm.
\<close>

definition regime_order :: "Engine \<Rightarrow> real \<Rightarrow> real option \<Rightarrow> MarketRegime" where
  "regime_order e vixLevel rsi =
     (if vixLevel > vixHighThreshold e then RegimeVolatile
      else case rsi of
             None \<Rightarrow> RegimeCalm
           | Some r \<Rightarrow>
               if r > rsiOverbought e then RegimeBearish
               else if r < rsiOversold e then RegimeBullish
               else RegimeCalm)"

subsection \<open>Example inputs\<close>

text \<open>The split vote of the package's own test table ("mixed signals low confidence").\<close>

definition inputs_split_vote :: ConfidenceInputs where
  "inputs_split_vote =
     \<lparr> inTicker = ''SPY'',
       CreatorSentiments = [(''creator1'', ''bullish''), (''creator2'', ''bearish'')],
       TechnicalSignals = [''bullish'', ''bearish''],
       CurrentVolume = 30000000,
       AvgVolume = 50000000,
       CreatorAccuracyRates = [(''creator1'', 0.5), (''creator2'', 0.5)] \<rparr>"

text \<open>One bullish creator with a perfect record, one bullish signal, twice the average volume.\<close>

definition inputs_all_bullish :: ConfidenceInputs where
  "inputs_all_bullish =
     \<lparr> inTicker = ''SPY'',
       CreatorSentiments = [(''creator1'', ''bullish'')],
       TechnicalSignals = [''bullish''],
       CurrentVolume = 100000000,
       AvgVolume = 50000000,
       CreatorAccuracyRates = [(''creator1'', 1)] \<rparr>"

text \<open>Non-negative weights whose sum, 1.01, is within the tolerance of 0.01.\<close>

definition weights_sum_101 :: ConfidenceWeights where
  "weights_sum_101 =
     \<lparr> wCreatorConsensus = 0.31,
       wTechnicalAlignment = 0.30,
       wVolumeConfirmation = 0.20,
       wHistoricalAccuracy = 0.20 \<rparr>"

text \<open>Inputs that differ only in the two volumes.\<close>

definition inputs_volumes :: "int \<Rightarrow> int \<Rightarrow> ConfidenceInputs" where
  "inputs_volumes current avg =
     \<lparr> inTicker = ''SPY'',
       CreatorSentiments = [],
       TechnicalSignals = [],
       CurrentVolume = current,
       AvgVolume = avg,
       CreatorAccuracyRates = [] \<rparr>"

text \<open>A score with only the overall value and the direction set, as the allocation tests build it.\<close>

definition score_of :: "real \<Rightarrow> string \<Rightarrow> ConfidenceScore" where
  "score_of overall direction =
     \<lparr> Overall = overall,
       CreatorConsensus = 0,
       TechnicalAlignment = 0,
       VolumeConfirmation = 0,
       HistoricalAccuracy = 0,
       Direction = direction,
       Breakdown = [] \<rparr>"

text \<open>A database in which every query finds no row.\<close>

definition zeroNullInt64 :: NullInt64 where
  "zeroNullInt64 = \<lparr> Int64 = 0, ValidInt = False \<rparr>"

definition db_no_rows :: DB where
  "db_no_rows =
     \<lparr> scanVIX = Inl ErrNoRows,
       scanSPYRSI = Inl ErrNoRows,
       scanTrackedTickers = Inl ErrNoRows,
       creatorSentimentRows = (\<lambda>ticker. Inr []),
       scanIndicators = (\<lambda>ticker. (zeroNullFloat64, zeroNullFloat64, zeroNullFloat64,
                                      zeroNullFloat64, zeroNullFloat64)),
       scanMarketData = (\<lambda>ticker. (0, zeroNullInt64)),
       scanVolumeAvg = (\<lambda>ticker. zeroNullInt64),
       creatorAccuracyRows = (\<lambda>creators. Rows []) \<rparr>"

text \<open>The same database with given outcomes of the VIX and the SPY RSI queries.\<close>

definition db_market :: "error + NullFloat64 \<Rightarrow> error + NullFloat64 \<Rightarrow> DB" where
  "db_market vix rsi = db_no_rows \<lparr> scanVIX := vix, scanSPYRSI := rsi \<rparr>"

definition float_value :: "real \<Rightarrow> error + NullFloat64" where
  "float_value x = Inr \<lparr> Float64 = x, Valid = True \<rparr>"

text \<open>A configuration whose three thresholds are negative.\<close>

definition config_negative :: Config where
  "config_negative =
     \<lparr> VIXHighThreshold = - 25.0,
       RSIOverbought = - 70.0,
       RSIOversold = - 30.0 \<rparr>"

subsection \<open>Facts about the scoring loops\<close>

lemma count_labels_eq:
  "count_labels ss (bull, bear) =
     (bull + length (filter (\<lambda>s. s = ''bullish'') ss),
      bear + length (filter (\<lambda>s. s = ''bearish'') ss))"
  by (induction ss arbitrary: bull bear) simp_all

lemma sum_rates_eq: "sum_rates as acc = acc + sum_list as"
  by (induction as arbitrary: acc) simp_all

lemma CalculateConfidence_fields:
  "CreatorConsensus (CalculateConfidence inputs weights) =
     fst (creator_consensus (CreatorSentiments inputs))"
  "TechnicalAlignment (CalculateConfidence inputs weights) =
     technical_alignment (TechnicalSignals inputs) (snd (creator_consensus (CreatorSentiments inputs)))"
  "VolumeConfirmation (CalculateConfidence inputs weights) =
     volume_confirmation (CurrentVolume inputs) (AvgVolume inputs)"
  "HistoricalAccuracy (CalculateConfidence inputs weights) =
     historical_accuracy (CreatorAccuracyRates inputs)"
  "Direction (CalculateConfidence inputs weights) =
     snd (creator_consensus (CreatorSentiments inputs))"
  "Overall (CalculateConfidence inputs weights) =
     CreatorConsensus (CalculateConfidence inputs weights) * wCreatorConsensus weights +
     TechnicalAlignment (CalculateConfidence inputs weights) * wTechnicalAlignment weights +
     VolumeConfirmation (CalculateConfidence inputs weights) * wVolumeConfirmation weights +
     HistoricalAccuracy (CalculateConfidence inputs weights) * wHistoricalAccuracy weights"
  by (simp_all add: CalculateConfidence_def Let_def split: prod.splits)

subsection \<open>The order of iteration over the maps\<close>

text \<open>
  Go ranges over a map in an unspecified order. The score depends on the entries of the two
  maps only as multisets, so every order of iteration gives the same score.
\<close>

lemma count_labels_mset:
  assumes "mset ss = mset ss'"
  shows "count_labels ss (bull, bear) = count_labels ss' (bull, bear)"
proof -
  have "length (filter P ss) = length (filter P ss')" for P
  proof -
    have "mset (filter P ss) = mset (filter P ss')" using assms by simp
    then show ?thesis by (rule mset_eq_length)
  qed
  then show ?thesis by (simp add: count_labels_eq)
qed

lemma sum_rates_mset:
  assumes "mset as = mset as'"
  shows "sum_rates as acc = sum_rates as' acc"
proof -
  have "sum_mset (mset as) = sum_mset (mset as')" using assms by simp
  then show ?thesis by (simp add: sum_rates_eq sum_mset_sum_list)
qed

lemma CalculateConfidence_iteration_order:
  assumes "mset (CreatorSentiments a) = mset (CreatorSentiments b)"
    and "mset (CreatorAccuracyRates a) = mset (CreatorAccuracyRates b)"
    and "TechnicalSignals a = TechnicalSignals b"
    and "CurrentVolume a = CurrentVolume b" "AvgVolume a = AvgVolume b"
  shows "CalculateConfidence a weights = CalculateConfidence b weights"
proof -
  have s: "mset (map snd (CreatorSentiments a)) = mset (map snd (CreatorSentiments b))"
    using assms(1) by (metis mset_map)
  have r: "mset (map snd (CreatorAccuracyRates a)) = mset (map snd (CreatorAccuracyRates b))"
    using assms(2) by (metis mset_map)
  have l: "length (CreatorSentiments a) = length (CreatorSentiments b)"
    "length (CreatorAccuracyRates a) = length (CreatorAccuracyRates b)"
    using assms(1,2) by (auto dest: mset_eq_length)
  have "creator_consensus (CreatorSentiments a) = creator_consensus (CreatorSentiments b)"
    unfolding creator_consensus_def count_labels_mset [OF s] l ..
  moreover have "historical_accuracy (CreatorAccuracyRates a) =
      historical_accuracy (CreatorAccuracyRates b)"
    unfolding historical_accuracy_def sum_rates_mset [OF r] l ..
  ultimately show ?thesis
    using assms(3-5) by (simp add: CalculateConfidence_def)
qed

subsection \<open>Ranges of the four components\<close>

lemma creator_consensus_range:
  "0 \<le> fst (creator_consensus sentiments) \<and> fst (creator_consensus sentiments) \<le> 1"
proof -
  have "length (filter P (map snd sentiments)) \<le> length sentiments" for P
    using length_filter_le [of P "map snd sentiments"] by simp
  then show ?thesis
    by (simp add: creator_consensus_def count_labels_eq Let_def divide_le_eq_1)
qed

lemma technical_alignment_range:
  "0 \<le> technical_alignment signals direction \<and> technical_alignment signals direction \<le> 1"
  by (simp add: technical_alignment_def count_labels_eq Let_def divide_le_eq_1)

lemma ramp_range:
  fixes ratio :: real
  shows "0 \<le> (if ratio \<ge> 2.0 then 1.0 else if ratio \<le> 0.5 then 0.0 else (ratio - 0.5) / 1.5) \<and>
         (if ratio \<ge> 2.0 then 1.0 else if ratio \<le> 0.5 then 0.0 else (ratio - 0.5) / 1.5) \<le> 1"
  by auto

lemma volume_confirmation_range:
  "0 \<le> volume_confirmation c a \<and> volume_confirmation c a \<le> 1"
proof (cases "a > 0")
  case True
  show ?thesis
    unfolding volume_confirmation_def Let_def if_P [OF True] by (rule ramp_range)
next
  case False
  then show ?thesis by (simp add: volume_confirmation_def)
qed

lemma sum_list_range:
  fixes as :: "real list"
  assumes "\<forall>a \<in> set as. 0 \<le> a \<and> a \<le> 1"
  shows "0 \<le> sum_list as \<and> sum_list as \<le> real (length as)"
  using assms by (induction as) auto

lemma historical_accuracy_range:
  assumes "\<forall>a \<in> snd ` set rates. 0 \<le> a \<and> a \<le> 1"
  shows "0 \<le> historical_accuracy rates \<and> historical_accuracy rates \<le> 1"
proof -
  have "\<forall>a \<in> set (map snd rates). 0 \<le> a \<and> a \<le> 1" using assms by simp
  from sum_list_range [OF this] show ?thesis
    by (simp add: historical_accuracy_def sum_rates_eq divide_le_eq_1)
qed

lemma weighted_sum_range:
  fixes a b c d :: real
  assumes "0 \<le> a" "a \<le> 1" "0 \<le> b" "b \<le> 1" "0 \<le> c" "c \<le> 1" "0 \<le> d" "d \<le> 1"
    and "0 \<le> p" "0 \<le> q" "0 \<le> r" "0 \<le> s"
  shows "0 \<le> a * p + b * q + c * r + d * s \<and> a * p + b * q + c * r + d * s \<le> p + q + r + s"
proof -
  have "a * p \<le> p" "b * q \<le> q" "c * r \<le> r" "d * s \<le> s"
    using assms by (simp_all add: mult_left_le_one_le)
  moreover have "0 \<le> a * p" "0 \<le> b * q" "0 \<le> c * r" "0 \<le> d * s"
    using assms by simp_all
  ultimately show ?thesis by linarith
qed

lemma creator_consensus_tie:
  assumes "sentiments \<noteq> []"
    and "length (filter (\<lambda>s. s = ''bullish'') (map snd sentiments)) =
         length (filter (\<lambda>s. s = ''bearish'') (map snd sentiments))"
  shows "creator_consensus sentiments = (0.5, ''neutral'')"
  using assms by (simp add: creator_consensus_def count_labels_eq)

subsection \<open>Facts about the allocation and the recommendation loop\<close>

lemma coreHoldings_Some:
  "coreHoldings ticker = Some fraction \<longleftrightarrow>
     ticker = ''SPY'' \<and> fraction = 0.40 \<or> ticker = ''QQQ'' \<and> fraction = 0.30 \<or>
     ticker = ''VOO'' \<and> fraction = 0.20 \<or> ticker = ''VTI'' \<and> fraction = 0.10"
  unfolding coreHoldings_def by (auto simp del: One_nat_def)

lemma coreHoldings_None:
  "coreHoldings ticker = None \<longleftrightarrow> ticker \<notin> {''SPY'', ''QQQ'', ''VOO'', ''VTI''}"
  unfolding coreHoldings_def by auto

lemma calculateAllocation_action:
  "Action (calculateAllocation e ticker score budget regime) = ''buy'' \<or>
   Action (calculateAllocation e ticker score budget regime) = ''wait''"
  by (simp add: calculateAllocation_def Let_def split: option.splits)

lemma recommend_tickers_actions:
  assumes "\<forall>r \<in> set recs. rAction r = ''buy'' \<or> rAction r = ''wait''"
  shows "\<forall>r \<in> set (fst (recommend_tickers e budget regime vix tickers (recs, qs))).
           rAction r = ''buy'' \<or> rAction r = ''wait''"
  using assms
proof (induction tickers arbitrary: recs qs)
  case Nil
  then show ?case by simp
next
  case (Cons ticker tickers)
  obtain res qs' where g: "getTickerConfidenceScore e ticker = (res, qs')"
    by (cases "getTickerConfidenceScore e ticker")
  show ?case
  proof (cases res)
    case (Inl err)
    with g Cons show ?thesis by simp
  next
    case (Inr score)
    let ?r = "\<lparr> rTicker = ticker,
                rAction = Action (calculateAllocation e ticker score budget regime),
                rAmount = Amount (calculateAllocation e ticker score budget regime),
                rConfidenceScore = Overall score,
                rReasoning = Reasoning (calculateAllocation e ticker score budget regime),
                rMarketRegime = regime,
                rVIXLevel = vix \<rparr>"
    have "\<forall>r \<in> set (recs @ [?r]). rAction r = ''buy'' \<or> rAction r = ''wait''"
      using Cons.prems calculateAllocation_action [of e ticker score budget regime] by auto
    from Cons.IH [OF this] g Inr show ?thesis by (simp add: Let_def)
  qed
qed

lemma detectMarketRegime_volatile:
  assumes "fst (fst (detectMarketRegime e)) = RegimeVolatile"
  shows "snd (snd (fst (detectMarketRegime e))) = None \<and> snd (detectMarketRegime e) = [SelectVIX]"
  using assms
  by (auto simp: detectMarketRegime_def Let_def split: sum.splits if_splits)

section \<open>The claims\<close>

subsection \<open>C1: range of the score\<close>

text \<open>
  C1, as the code has it. For inputs whose accuracy rates lie in [0,1] and whose volumes are
  not negative, and for weights that are not negative and sum to 1.0 within 0.01:
  each of the four components lies in [0,1], and the overall score lies between 0 and the
  sum of the weights. So it is at most 1.01, and at most 1 when the weights sum to at most 1.
  Nothing is clamped: the bounds follow from the ranges of the components.
\<close>

theorem CalculateConfidence_bounds:
  assumes rates: "\<forall>a \<in> snd ` set (CreatorAccuracyRates inputs). 0 \<le> a \<and> a \<le> 1"
    and vols: "0 \<le> CurrentVolume inputs" "0 \<le> AvgVolume inputs"
    and nonneg: "0 \<le> wCreatorConsensus weights" "0 \<le> wTechnicalAlignment weights"
                "0 \<le> wVolumeConfirmation weights" "0 \<le> wHistoricalAccuracy weights"
    and total: "\<bar>wCreatorConsensus weights + wTechnicalAlignment weights +
                 wVolumeConfirmation weights + wHistoricalAccuracy weights - 1\<bar> \<le> 0.01"
  shows "0 \<le> CreatorConsensus (CalculateConfidence inputs weights) \<and>
         CreatorConsensus (CalculateConfidence inputs weights) \<le> 1 \<and>
         0 \<le> TechnicalAlignment (CalculateConfidence inputs weights) \<and>
         TechnicalAlignment (CalculateConfidence inputs weights) \<le> 1 \<and>
         0 \<le> VolumeConfirmation (CalculateConfidence inputs weights) \<and>
         VolumeConfirmation (CalculateConfidence inputs weights) \<le> 1 \<and>
         0 \<le> HistoricalAccuracy (CalculateConfidence inputs weights) \<and>
         HistoricalAccuracy (CalculateConfidence inputs weights) \<le> 1 \<and>
         0 \<le> Overall (CalculateConfidence inputs weights) \<and>
         Overall (CalculateConfidence inputs weights) \<le>
           wCreatorConsensus weights + wTechnicalAlignment weights +
           wVolumeConfirmation weights + wHistoricalAccuracy weights \<and>
         Overall (CalculateConfidence inputs weights) \<le> 1.01 \<and>
         (wCreatorConsensus weights + wTechnicalAlignment weights +
          wVolumeConfirmation weights + wHistoricalAccuracy weights \<le> 1 \<longrightarrow>
            Overall (CalculateConfidence inputs weights) \<le> 1)"
proof -
  let ?s = "CalculateConfidence inputs weights"
  have c: "0 \<le> CreatorConsensus ?s \<and> CreatorConsensus ?s \<le> 1"
    unfolding CalculateConfidence_fields(1) by (rule creator_consensus_range)
  have t: "0 \<le> TechnicalAlignment ?s \<and> TechnicalAlignment ?s \<le> 1"
    unfolding CalculateConfidence_fields(2) by (rule technical_alignment_range)
  have v: "0 \<le> VolumeConfirmation ?s \<and> VolumeConfirmation ?s \<le> 1"
    unfolding CalculateConfidence_fields(3) by (rule volume_confirmation_range)
  have h: "0 \<le> HistoricalAccuracy ?s \<and> HistoricalAccuracy ?s \<le> 1"
    unfolding CalculateConfidence_fields(4) by (rule historical_accuracy_range [OF rates])
  have ov: "0 \<le> Overall ?s \<and> Overall ?s \<le>
      wCreatorConsensus weights + wTechnicalAlignment weights +
      wVolumeConfirmation weights + wHistoricalAccuracy weights"
    unfolding CalculateConfidence_fields(6)
    using c t v h nonneg by (intro weighted_sum_range) simp_all
  from total have "wCreatorConsensus weights + wTechnicalAlignment weights +
      wVolumeConfirmation weights + wHistoricalAccuracy weights - 1 \<le> 0.01"
    unfolding abs_le_iff by (rule conjunct1)
  with ov have "Overall ?s \<le> 1.01" by simp
  with c t v h ov show ?thesis by simp
qed

text \<open>The bounds at the default weights (sum 1) and the split vote: the score is 31/75.\<close>

theorem CalculateConfidence_bounds_witness:
  "0 \<le> Overall (CalculateConfidence inputs_split_vote DefaultWeights) \<and>
   Overall (CalculateConfidence inputs_split_vote DefaultWeights) \<le> 1 \<and>
   0 \<le> CreatorConsensus (CalculateConfidence inputs_split_vote DefaultWeights) \<and>
   CreatorConsensus (CalculateConfidence inputs_split_vote DefaultWeights) \<le> 1"
  using CalculateConfidence_bounds [of inputs_split_vote DefaultWeights]
  by (simp add: inputs_split_vote_def DefaultWeights_def)

text \<open>
  C1 as stated fails: with weights 0.31, 0.30, 0.20, 0.20 (sum 1.01, inside the tolerance)
  and inputs whose four components are all 1, the overall score is 1.01.
\<close>

theorem CalculateConfidence_overall_counterexample:
  "CreatorAccuracyRates inputs_all_bullish = [(''creator1'', 1)] \<and>
   0 \<le> CurrentVolume inputs_all_bullish \<and> 0 \<le> AvgVolume inputs_all_bullish \<and>
   0 \<le> wCreatorConsensus weights_sum_101 \<and> 0 \<le> wTechnicalAlignment weights_sum_101 \<and>
   0 \<le> wVolumeConfirmation weights_sum_101 \<and> 0 \<le> wHistoricalAccuracy weights_sum_101 \<and>
   \<bar>wCreatorConsensus weights_sum_101 + wTechnicalAlignment weights_sum_101 +
    wVolumeConfirmation weights_sum_101 + wHistoricalAccuracy weights_sum_101 - 1\<bar> \<le> 0.01 \<and>
   Overall (CalculateConfidence inputs_all_bullish weights_sum_101) = 1.01 \<and>
   \<not> Overall (CalculateConfidence inputs_all_bullish weights_sum_101) \<le> 1"
  by (simp add: inputs_all_bullish_def weights_sum_101_def CalculateConfidence_def
      creator_consensus_def technical_alignment_def volume_confirmation_def
      historical_accuracy_def Let_def)

subsection \<open>C6: a tied vote is neutral\<close>

text \<open>
  C6. With at least one creator sentiment and as many bullish as bearish creators (both
  counts may be zero), the direction is neutral and the creator consensus is 0.5.
\<close>

theorem CalculateConfidence_tie_neutral:
  assumes "CreatorSentiments inputs \<noteq> []"
    and "length (filter (\<lambda>s. s = ''bullish'') (map snd (CreatorSentiments inputs))) =
         length (filter (\<lambda>s. s = ''bearish'') (map snd (CreatorSentiments inputs)))"
  shows "Direction (CalculateConfidence inputs weights) = ''neutral'' \<and>
         CreatorConsensus (CalculateConfidence inputs weights) = 0.5"
  using creator_consensus_tie [OF assms] by (simp add: CalculateConfidence_fields)

theorem CalculateConfidence_tie_neutral_witness:
  "Direction (CalculateConfidence inputs_split_vote DefaultWeights) = ''neutral'' \<and>
   CreatorConsensus (CalculateConfidence inputs_split_vote DefaultWeights) = 0.5"
  using CalculateConfidence_tie_neutral [of inputs_split_vote DefaultWeights]
  by (simp add: inputs_split_vote_def)

subsection \<open>C7: volume confirmation\<close>

text \<open>
  C7, as the code has it. The volume confirmation is 0.5 whenever the average volume is
  zero or negative (the guard is a positive average). For a positive average, with
  ratio = current / average, it is 1 when ratio \<ge> 2, 0 when ratio \<le> 0.5 and
  (ratio - 0.5) / 1.5 in between. In particular it is 1/3 at ratio 1, 1 at ratio 2 and 0 at
  ratio 0.5.
\<close>

theorem CalculateConfidence_volume:
  "(AvgVolume inputs \<le> 0 \<longrightarrow> VolumeConfirmation (CalculateConfidence inputs weights) = 0.5) \<and>
   (AvgVolume inputs > 0 \<longrightarrow>
      (let ratio = real_of_int (CurrentVolume inputs) / real_of_int (AvgVolume inputs)
       in VolumeConfirmation (CalculateConfidence inputs weights) =
            (if ratio \<ge> 2 then 1 else if ratio \<le> 0.5 then 0 else (ratio - 0.5) / 1.5))) \<and>
   (AvgVolume inputs > 0 \<and> CurrentVolume inputs = AvgVolume inputs \<longrightarrow>
      VolumeConfirmation (CalculateConfidence inputs weights) = 1 / 3) \<and>
   (AvgVolume inputs > 0 \<and> CurrentVolume inputs = 2 * AvgVolume inputs \<longrightarrow>
      VolumeConfirmation (CalculateConfidence inputs weights) = 1) \<and>
   (AvgVolume inputs > 0 \<and> 2 * CurrentVolume inputs = AvgVolume inputs \<longrightarrow>
      VolumeConfirmation (CalculateConfidence inputs weights) = 0)"
proof -
  have half: "real_of_int c / real_of_int a = 1 / 2" if "2 * c = a" "a > 0" for a c :: int
  proof -
    have "real_of_int a = 2 * real_of_int c" using that(1) by auto
    moreover have "real_of_int c \<noteq> 0" using that by auto
    ultimately show ?thesis by simp
  qed
  show ?thesis
    unfolding CalculateConfidence_fields(3)
    by (auto simp: volume_confirmation_def Let_def half)
qed

text \<open>
  No average; a negative average; current = average; twice the average; half of it; 30
  against 50 million.
\<close>

theorem CalculateConfidence_volume_witness:
  "VolumeConfirmation (CalculateConfidence (inputs_volumes 7 0) DefaultWeights) = 0.5 \<and>
   VolumeConfirmation (CalculateConfidence (inputs_volumes 7 (- 5)) DefaultWeights) = 0.5 \<and>
   VolumeConfirmation (CalculateConfidence (inputs_volumes 50 50) DefaultWeights) = 1 / 3 \<and>
   VolumeConfirmation (CalculateConfidence (inputs_volumes 100 50) DefaultWeights) = 1 \<and>
   VolumeConfirmation (CalculateConfidence (inputs_volumes 25 50) DefaultWeights) = 0 \<and>
   VolumeConfirmation (CalculateConfidence inputs_split_vote DefaultWeights) = 1 / 15"
  using CalculateConfidence_volume [of "inputs_volumes 7 0" DefaultWeights]
    CalculateConfidence_volume [of "inputs_volumes 7 (- 5)" DefaultWeights]
    CalculateConfidence_volume [of "inputs_volumes 50 50" DefaultWeights]
    CalculateConfidence_volume [of "inputs_volumes 100 50" DefaultWeights]
    CalculateConfidence_volume [of "inputs_volumes 25 50" DefaultWeights]
    CalculateConfidence_volume [of inputs_split_vote DefaultWeights]
  by (simp add: inputs_volumes_def inputs_split_vote_def)

text \<open>
  C7 as stated fails for a negative average: at current volume 7 and average -5 the average
  is not zero and the ratio, -1.4, is at most 0.5, yet the volume confirmation is 0.5, not 0.
\<close>

theorem CalculateConfidence_volume_negative_counterexample:
  "AvgVolume (inputs_volumes 7 (- 5)) \<noteq> 0 \<and>
   real_of_int (CurrentVolume (inputs_volumes 7 (- 5))) /
     real_of_int (AvgVolume (inputs_volumes 7 (- 5))) \<le> 0.5 \<and>
   VolumeConfirmation (CalculateConfidence (inputs_volumes 7 (- 5)) DefaultWeights) = 0.5 \<and>
   VolumeConfirmation (CalculateConfidence (inputs_volumes 7 (- 5)) DefaultWeights) \<noteq> 0"
  by (simp add: inputs_volumes_def CalculateConfidence_def creator_consensus_def
      volume_confirmation_def Let_def)

subsection \<open>C2: the tiers of a core holding\<close>

text \<open>
  C2. For a ticker of the core table (SPY 0.40, QQQ 0.30, VOO 0.20, VTI 0.10) the action is
  buy and exactly one tier applies to base = budget * fraction, the first that matches:
  overall below 0.4, a quarter of base; overall below 0.6, half of base; regime bearish,
  three quarters; regime bullish and overall above 0.8, base * 1.1 capped at base * 1.2;
  otherwise base. The reasoning names the tier taken. The comparisons are strict, so 0.4 is
  in the half tier, 0.6 is past it and 0.8 is not boosted. For a budget that is not
  negative the cap never binds.
\<close>

theorem calculateAllocation_core:
  assumes "coreHoldings ticker = Some fraction"
  shows "(ticker = ''SPY'' \<and> fraction = 0.40 \<or> ticker = ''QQQ'' \<and> fraction = 0.30 \<or>
          ticker = ''VOO'' \<and> fraction = 0.20 \<or> ticker = ''VTI'' \<and> fraction = 0.10) \<and>
         Action (calculateAllocation e ticker score budget regime) = ''buy'' \<and>
         Amount (calculateAllocation e ticker score budget regime) =
           (if Overall score < 0.4 then budget * fraction * 0.25
            else if Overall score < 0.6 then budget * fraction * 0.5
            else if regime = RegimeBearish then budget * fraction * 0.75
            else if regime = RegimeBullish \<and> Overall score > 0.8 then
              min (budget * fraction * 1.1) (budget * fraction * 1.2)
            else budget * fraction) \<and>
         hd (Reasoning (calculateAllocation e ticker score budget regime)) =
           Lit (if Overall score < 0.4 then ''Reduced allocation due to low confidence (''
                else if Overall score < 0.6 then ''Reduced allocation due to moderate confidence (''
                else if regime = RegimeBearish then ''Bearish regime - conservative allocation (''
                else if regime = RegimeBullish \<and> Overall score > 0.8 then
                  ''Bullish regime with high confidence (''
                else ''Standard allocation ('') \<and>
         (0 \<le> budget \<longrightarrow> min (budget * fraction * 1.1) (budget * fraction * 1.2) =
            budget * fraction * 1.1)"
proof -
  have f: "ticker = ''SPY'' \<and> fraction = 0.40 \<or> ticker = ''QQQ'' \<and> fraction = 0.30 \<or>
          ticker = ''VOO'' \<and> fraction = 0.20 \<or> ticker = ''VTI'' \<and> fraction = 0.10"
    using assms by (simp only: coreHoldings_Some)
  then have "0 \<le> fraction" by auto
  then have cap: "0 \<le> budget \<longrightarrow> min (budget * fraction * 1.1) (budget * fraction * 1.2) =
            budget * fraction * 1.1"
    by (auto simp: min_def mult_left_mono)
  have rest: "Action (calculateAllocation e ticker score budget regime) = ''buy'' \<and>
         Amount (calculateAllocation e ticker score budget regime) =
           (if Overall score < 0.4 then budget * fraction * 0.25
            else if Overall score < 0.6 then budget * fraction * 0.5
            else if regime = RegimeBearish then budget * fraction * 0.75
            else if regime = RegimeBullish \<and> Overall score > 0.8 then
              min (budget * fraction * 1.1) (budget * fraction * 1.2)
            else budget * fraction) \<and>
         hd (Reasoning (calculateAllocation e ticker score budget regime)) =
           Lit (if Overall score < 0.4 then ''Reduced allocation due to low confidence (''
                else if Overall score < 0.6 then ''Reduced allocation due to moderate confidence (''
                else if regime = RegimeBearish then ''Bearish regime - conservative allocation (''
                else if regime = RegimeBullish \<and> Overall score > 0.8 then
                  ''Bullish regime with high confidence (''
                else ''Standard allocation ('')"
    unfolding calculateAllocation_def assms option.case Let_def
    by (simp add: min_def)
  from f cap rest show ?thesis by blast
qed

text \<open>
  The scenarios of the specification (SPY at 0.85 in a bullish regime, QQQ at 0.75 in a
  bearish one) and both sides of each threshold, for a budget of 1000.
\<close>

theorem calculateAllocation_core_witness:
  "Amount (calculateAllocation (NewEngine db_no_rows DefaultConfig) ''SPY'' (score_of 0.85 ''bullish'') 1000 RegimeBullish) = 440 \<and>
   Action (calculateAllocation (NewEngine db_no_rows DefaultConfig) ''SPY'' (score_of 0.85 ''bullish'') 1000 RegimeBullish) = ''buy'' \<and>
   Amount (calculateAllocation (NewEngine db_no_rows DefaultConfig) ''QQQ'' (score_of 0.75 ''bullish'') 1000 RegimeBearish) = 225 \<and>
   Amount (calculateAllocation (NewEngine db_no_rows DefaultConfig) ''SPY'' (score_of 0.3999 ''neutral'') 1000 RegimeCalm) = 100 \<and>
   Amount (calculateAllocation (NewEngine db_no_rows DefaultConfig) ''SPY'' (score_of 0.40 ''neutral'') 1000 RegimeCalm) = 200 \<and>
   Amount (calculateAllocation (NewEngine db_no_rows DefaultConfig) ''SPY'' (score_of 0.5999 ''neutral'') 1000 RegimeCalm) = 200 \<and>
   Amount (calculateAllocation (NewEngine db_no_rows DefaultConfig) ''SPY'' (score_of 0.60 ''neutral'') 1000 RegimeCalm) = 400 \<and>
   Amount (calculateAllocation (NewEngine db_no_rows DefaultConfig) ''SPY'' (score_of 0.80 ''bullish'') 1000 RegimeBullish) = 400 \<and>
   Amount (calculateAllocation (NewEngine db_no_rows DefaultConfig) ''SPY'' (score_of 0.8001 ''bullish'') 1000 RegimeBullish) = 440"
  using calculateAllocation_core [of "''SPY''" "0.40" "NewEngine db_no_rows DefaultConfig" "score_of 0.85 ''bullish''" 1000 RegimeBullish]
    calculateAllocation_core [of "''QQQ''" "0.30" "NewEngine db_no_rows DefaultConfig" "score_of 0.75 ''bullish''" 1000 RegimeBearish]
    calculateAllocation_core [of "''SPY''" "0.40" "NewEngine db_no_rows DefaultConfig" "score_of 0.3999 ''neutral''" 1000 RegimeCalm]
    calculateAllocation_core [of "''SPY''" "0.40" "NewEngine db_no_rows DefaultConfig" "score_of 0.40 ''neutral''" 1000 RegimeCalm]
    calculateAllocation_core [of "''SPY''" "0.40" "NewEngine db_no_rows DefaultConfig" "score_of 0.5999 ''neutral''" 1000 RegimeCalm]
    calculateAllocation_core [of "''SPY''" "0.40" "NewEngine db_no_rows DefaultConfig" "score_of 0.60 ''neutral''" 1000 RegimeCalm]
    calculateAllocation_core [of "''SPY''" "0.40" "NewEngine db_no_rows DefaultConfig" "score_of 0.80 ''bullish''" 1000 RegimeBullish]
    calculateAllocation_core [of "''SPY''" "0.40" "NewEngine db_no_rows DefaultConfig" "score_of 0.8001 ''bullish''" 1000 RegimeBullish]
  by (simp add: coreHoldings_def score_of_def)

subsection \<open>C3: satellite tickers\<close>

text \<open>
  C3. For a ticker that is not in the core table: overall below 0.6 gives wait and amount 0;
  overall of 0.6 or more gives buy and a tenth of the budget, whatever the regime.
\<close>

theorem calculateAllocation_satellite:
  assumes "coreHoldings ticker = None"
  shows "(Overall score < 0.6 \<longrightarrow>
            Action (calculateAllocation e ticker score budget regime) = ''wait'' \<and>
            Amount (calculateAllocation e ticker score budget regime) = 0) \<and>
         (0.6 \<le> Overall score \<longrightarrow>
            Action (calculateAllocation e ticker score budget regime) = ''buy'' \<and>
            Amount (calculateAllocation e ticker score budget regime) = budget * 0.10)"
  unfolding calculateAllocation_def assms option.case by simp

theorem calculateAllocation_satellite_witness:
  "Action (calculateAllocation (NewEngine db_no_rows DefaultConfig) ''PLTR'' (score_of 0.59 ''neutral'') 1000 RegimeCalm) = ''wait'' \<and>
   Amount (calculateAllocation (NewEngine db_no_rows DefaultConfig) ''PLTR'' (score_of 0.59 ''neutral'') 1000 RegimeCalm) = 0 \<and>
   Action (calculateAllocation (NewEngine db_no_rows DefaultConfig) ''PLTR'' (score_of 0.60 ''bullish'') 1000 RegimeBearish) = ''buy'' \<and>
   Amount (calculateAllocation (NewEngine db_no_rows DefaultConfig) ''PLTR'' (score_of 0.60 ''bullish'') 1000 RegimeBearish) = 100"
  using calculateAllocation_satellite [of "''PLTR''" "score_of 0.59 ''neutral''" "NewEngine db_no_rows DefaultConfig" 1000 RegimeCalm]
    calculateAllocation_satellite [of "''PLTR''" "score_of 0.60 ''bullish''" "NewEngine db_no_rows DefaultConfig" 1000 RegimeBearish]
  by (simp add: coreHoldings_def score_of_def)

subsection \<open>C8: range of the amount\<close>

text \<open>
  C8. For a budget that is not negative the amount of every allocation lies between 0 and
  the budget, and the action wait comes with amount 0.
\<close>

theorem calculateAllocation_amount_range:
  assumes "0 \<le> budget"
  shows "0 \<le> Amount (calculateAllocation e ticker score budget regime) \<and>
         Amount (calculateAllocation e ticker score budget regime) \<le> budget \<and>
         (Action (calculateAllocation e ticker score budget regime) = ''wait'' \<longrightarrow>
            Amount (calculateAllocation e ticker score budget regime) = 0)"
proof (cases "coreHoldings ticker")
  case None
  with assms show ?thesis
    unfolding calculateAllocation_def None option.case by simp
next
  case (Some fraction)
  then have "fraction = 0.40 \<or> fraction = 0.30 \<or> fraction = 0.20 \<or> fraction = 0.10"
    by (auto simp only: coreHoldings_Some)
  then have "0 \<le> fraction" "fraction \<le> 0.4" by auto
  define base where "base = budget * fraction"
  have "0 \<le> base" unfolding base_def using assms \<open>0 \<le> fraction\<close> by simp
  moreover have "base \<le> budget * 0.4"
    unfolding base_def using \<open>fraction \<le> 0.4\<close> assms by (rule mult_left_mono)
  ultimately have "0 \<le> base * 0.25 \<and> base * 0.25 \<le> budget \<and> 0 \<le> base * 0.5 \<and> base * 0.5 \<le> budget \<and>
      0 \<le> base * 0.75 \<and> base * 0.75 \<le> budget \<and> 0 \<le> base * 1.1 \<and> base * 1.1 \<le> budget \<and>
      0 \<le> base * 1.2 \<and> base * 1.2 \<le> budget \<and> base \<le> budget"
    using assms by simp
  then show ?thesis
    unfolding calculateAllocation_def Some option.case Let_def base_def [symmetric]
    by (simp split: if_splits)
qed

theorem calculateAllocation_amount_range_witness:
  "0 \<le> Amount (calculateAllocation (NewEngine db_no_rows DefaultConfig) ''SPY'' (score_of 0.85 ''bullish'') 1000 RegimeBullish) \<and>
   Amount (calculateAllocation (NewEngine db_no_rows DefaultConfig) ''SPY'' (score_of 0.85 ''bullish'') 1000 RegimeBullish) \<le> 1000 \<and>
   Action (calculateAllocation (NewEngine db_no_rows DefaultConfig) ''PLTR'' (score_of 0.50 ''neutral'') 1000 RegimeCalm) = ''wait'' \<and>
   Amount (calculateAllocation (NewEngine db_no_rows DefaultConfig) ''PLTR'' (score_of 0.50 ''neutral'') 1000 RegimeCalm) = 0"
  using calculateAllocation_amount_range [of 1000 "NewEngine db_no_rows DefaultConfig" "''SPY''" "score_of 0.85 ''bullish''" RegimeBullish]
    calculateAllocation_amount_range [of 1000 "NewEngine db_no_rows DefaultConfig" "''PLTR''" "score_of 0.50 ''neutral''" RegimeCalm]
  by (simp add: calculateAllocation_def coreHoldings_def score_of_def)

subsection \<open>C4: the volatile short-circuit\<close>

text \<open>
  C4. When the detected regime is volatile, GenerateRecommendations returns exactly one
  recommendation: action wait, amount 0, the VIX level recorded in the record and named in
  the reasoning. The only query issued is the one for the VIX: neither the tracked tickers
  nor any data of a ticker are read, so no score is computed.
\<close>

theorem GenerateRecommendations_volatile:
  assumes "fst (fst (detectMarketRegime e)) = RegimeVolatile"
  shows "GenerateRecommendations e budget =
           (Inr [\<lparr> rTicker = [],
                   rAction = ''wait'',
                   rAmount = 0,
                   rConfidenceScore = 0,
                   rReasoning = [Lit ''High volatility detected (VIX: '',
                                 F2 (fst (snd (fst (detectMarketRegime e)))),
                                 Lit ''). Wait 2-3 days for market to stabilize.''],
                   rMarketRegime = RegimeVolatile,
                   rVIXLevel = fst (snd (fst (detectMarketRegime e))) \<rparr>],
            [SelectVIX])"
proof -
  obtain regime vix err qs where d: "detectMarketRegime e = ((regime, vix, err), qs)"
    by (metis prod.exhaust)
  with assms detectMarketRegime_volatile [OF assms]
  have "regime = RegimeVolatile" "err = None" "qs = [SelectVIX]" by simp_all
  with d show ?thesis by (simp add: GenerateRecommendations_def)
qed

text \<open>A VIX of 30 against the default threshold of 25.\<close>

theorem GenerateRecommendations_volatile_witness:
  "fst (fst (detectMarketRegime (NewEngine (db_market (float_value 30) (float_value 80)) DefaultConfig))) = RegimeVolatile \<and>
   GenerateRecommendations (NewEngine (db_market (float_value 30) (float_value 80)) DefaultConfig) 1000 =
     (Inr [\<lparr> rTicker = [],
             rAction = ''wait'',
             rAmount = 0,
             rConfidenceScore = 0,
             rReasoning = [Lit ''High volatility detected (VIX: '', F2 30,
                           Lit ''). Wait 2-3 days for market to stabilize.''],
             rMarketRegime = RegimeVolatile,
             rVIXLevel = 30 \<rparr>],
      [SelectVIX])"
  using GenerateRecommendations_volatile [of "NewEngine (db_market (float_value 30) (float_value 80)) DefaultConfig" 1000]
  by (simp add: detectMarketRegime_def NewEngine_def db_market_def db_no_rows_def float_value_def
      DefaultConfig_def)

subsection \<open>C5: the decision order of detectMarketRegime\<close>

text \<open>
  C5, as the code has it. A VIX query that fails with an error other than "no rows" gives
  calm, level 0 and the error. Otherwise the VIX level is the value read, or 0 when there is
  no row or the value is NULL, and the order of the specification is applied to that level:
  above the high threshold volatile, whatever the RSI; else RSI above overbought bearish;
  else RSI below oversold bullish; otherwise calm. A missing VIX is thus level 0 and does
  not end the decision. The default thresholds are 25, 70 and 30.
\<close>

theorem detectMarketRegime_order:
  "fst (detectMarketRegime e) =
     (case scanVIX (db e) of
        Inl err \<Rightarrow>
          if err = ErrNoRows then (regime_order e 0 (spyRSI (db e)), 0, None)
          else (RegimeCalm, 0, Some (Wrap ''query VIX'' err))
      | Inr vix \<Rightarrow>
          if Valid vix then (regime_order e (Float64 vix) (spyRSI (db e)), Float64 vix, None)
          else (regime_order e 0 (spyRSI (db e)), 0, None)) \<and>
   (vixLevel > vixHighThreshold e \<longrightarrow> regime_order e vixLevel rsi = RegimeVolatile) \<and>
   NewEngine d DefaultConfig =
     \<lparr> db = d, vixHighThreshold = 25.0, rsiOverbought = 70.0, rsiOversold = 30.0 \<rparr>"
  by (simp add: detectMarketRegime_def regime_order_def spyRSI_def zeroNullFloat64_def Let_def
      NewEngine_def DefaultConfig_def split: sum.splits)

theorem detectMarketRegime_order_witness:
  "fst (detectMarketRegime (NewEngine (db_market (float_value 30) (float_value 80)) DefaultConfig)) =
     (RegimeVolatile, 30, None) \<and>
   fst (detectMarketRegime (NewEngine (db_market (float_value 20) (float_value 80)) DefaultConfig)) =
     (RegimeBearish, 20, None) \<and>
   fst (detectMarketRegime (NewEngine (db_market (float_value 20) (float_value 25)) DefaultConfig)) =
     (RegimeBullish, 20, None) \<and>
   fst (detectMarketRegime (NewEngine (db_market (float_value 20) (float_value 50)) DefaultConfig)) =
     (RegimeCalm, 20, None) \<and>
   fst (detectMarketRegime (NewEngine (db_market (Inl ErrNoRows) (Inl ErrNoRows)) DefaultConfig)) =
     (RegimeCalm, 0, None) \<and>
   fst (detectMarketRegime (NewEngine (db_market (Inl (ErrDB ''timeout'')) (float_value 80)) DefaultConfig)) =
     (RegimeCalm, 0, Some (Wrap ''query VIX'' (ErrDB ''timeout'')))"
  using detectMarketRegime_order [of "NewEngine (db_market (float_value 30) (float_value 80)) DefaultConfig"]
    detectMarketRegime_order [of "NewEngine (db_market (float_value 20) (float_value 80)) DefaultConfig"]
    detectMarketRegime_order [of "NewEngine (db_market (float_value 20) (float_value 25)) DefaultConfig"]
    detectMarketRegime_order [of "NewEngine (db_market (float_value 20) (float_value 50)) DefaultConfig"]
    detectMarketRegime_order [of "NewEngine (db_market (Inl ErrNoRows) (Inl ErrNoRows)) DefaultConfig"]
    detectMarketRegime_order [of "NewEngine (db_market (Inl (ErrDB ''timeout'')) (float_value 80)) DefaultConfig"]
  by (simp add: regime_order_def spyRSI_def NewEngine_def db_market_def db_no_rows_def
      float_value_def DefaultConfig_def)

text \<open>
  C5 as stated fails: with no VIX row and an RSI of 80 for SPY the regime is bearish, not
  calm.
\<close>

theorem detectMarketRegime_vix_missing_counterexample:
  "scanVIX (db (NewEngine (db_market (Inl ErrNoRows) (float_value 80)) DefaultConfig)) = Inl ErrNoRows \<and>
   fst (detectMarketRegime (NewEngine (db_market (Inl ErrNoRows) (float_value 80)) DefaultConfig)) =
     (RegimeBearish, 0, None) \<and>
   fst (fst (detectMarketRegime (NewEngine (db_market (Inl ErrNoRows) (float_value 80)) DefaultConfig))) \<noteq>
     RegimeCalm"
  by (simp add: detectMarketRegime_def NewEngine_def db_market_def db_no_rows_def float_value_def
      DefaultConfig_def zeroNullFloat64_def)

subsection \<open>C9: engine construction\<close>

text \<open>
  C9, as the code has it. NewEngine performs no validation: for every configuration it
  returns an engine that carries the three thresholds unchanged. Confidence weights are not
  part of the configuration: the score of a ticker does not depend on the configuration and
  is computed with the default weights, which sum to 1. The default thresholds are 25, 70
  and 30.
\<close>

theorem NewEngine_no_validation:
  "db (NewEngine d cfg) = d \<and>
   vixHighThreshold (NewEngine d cfg) = VIXHighThreshold cfg \<and>
   rsiOverbought (NewEngine d cfg) = RSIOverbought cfg \<and>
   rsiOversold (NewEngine d cfg) = RSIOversold cfg \<and>
   getTickerConfidenceScore (NewEngine d cfg) ticker =
     getTickerConfidenceScore (NewEngine d DefaultConfig) ticker \<and>
   wCreatorConsensus DefaultWeights + wTechnicalAlignment DefaultWeights +
     wVolumeConfirmation DefaultWeights + wHistoricalAccuracy DefaultWeights = 1 \<and>
   NewEngine d DefaultConfig =
     \<lparr> db = d, vixHighThreshold = 25.0, rsiOverbought = 70.0, rsiOversold = 30.0 \<rparr>"
  by (simp add: NewEngine_def getTickerConfidenceScore_def DefaultWeights_def DefaultConfig_def)

theorem NewEngine_no_validation_witness:
  "vixHighThreshold (NewEngine db_no_rows config_negative) = - 25 \<and>
   rsiOverbought (NewEngine db_no_rows config_negative) = - 70 \<and>
   rsiOversold (NewEngine db_no_rows config_negative) = - 30"
  using NewEngine_no_validation [of db_no_rows config_negative]
  by (simp add: config_negative_def)

text \<open>
  C9 as stated fails: an engine built from three negative thresholds exists and runs; with
  no VIX row it reports a volatile regime, since 0 exceeds the threshold of -25.
\<close>

theorem NewEngine_negative_thresholds_counterexample:
  "VIXHighThreshold config_negative < 0 \<and> RSIOverbought config_negative < 0 \<and>
   RSIOversold config_negative < 0 \<and>
   NewEngine db_no_rows config_negative =
     \<lparr> db = db_no_rows, vixHighThreshold = - 25, rsiOverbought = - 70, rsiOversold = - 30 \<rparr> \<and>
   fst (detectMarketRegime (NewEngine db_no_rows config_negative)) = (RegimeVolatile, 0, None)"
  by (simp add: NewEngine_def config_negative_def detectMarketRegime_def db_no_rows_def
      zeroNullFloat64_def)

subsection \<open>C10: no recommendation says hold\<close>

text \<open>
  C10. The action of every allocation is buy or wait, never hold, and so is the action of
  every recommendation that GenerateRecommendations returns, the single recommendation of
  the volatile regime included.
\<close>

theorem engine_never_holds:
  "Action (calculateAllocation e ticker score budget regime) \<in> {''buy'', ''wait''} \<and>
   Action (calculateAllocation e ticker score budget regime) \<noteq> ''hold'' \<and>
   (\<forall>recs. fst (GenerateRecommendations e budget) = Inr recs \<longrightarrow>
      (\<forall>r \<in> set recs. rAction r \<in> {''buy'', ''wait''} \<and> rAction r \<noteq> ''hold''))"
proof -
  have a: "Action (calculateAllocation e ticker score budget regime) \<in> {''buy'', ''wait''}"
    using calculateAllocation_action [of e ticker score budget regime] by auto
  have "rAction r = ''buy'' \<or> rAction r = ''wait''"
    if "fst (GenerateRecommendations e budget) = Inr recs" "r \<in> set recs" for recs r
  proof -
    obtain regime vix err qs where d: "detectMarketRegime e = ((regime, vix, err), qs)"
      by (metis surj_pair)
    obtain regime' vix' where
      r: "(if err \<noteq> None then (RegimeCalm, 0) else (regime, vix)) = (regime', vix')"
      by (cases err) auto
    show ?thesis
    proof (cases "regime' = RegimeVolatile")
      case True
      with d r that show ?thesis by (auto simp: GenerateRecommendations_def)
    next
      case False
      obtain res qs2 where t: "getTrackedTickers e = (res, qs2)"
        by (cases "getTrackedTickers e")
      show ?thesis
      proof (cases res)
        case (Inl x)
        with d r t False that show ?thesis by (simp add: GenerateRecommendations_def)
      next
        case (Inr tickers)
        have "\<forall>r \<in> set (fst (recommend_tickers e budget regime' vix' tickers ([], qs @ qs2))).
           rAction r = ''buy'' \<or> rAction r = ''wait''"
          by (rule recommend_tickers_actions) simp
        with d r t False Inr that show ?thesis
          by (auto simp: GenerateRecommendations_def split: prod.splits)
      qed
    qed
  qed
  then have b: "\<forall>recs. fst (GenerateRecommendations e budget) = Inr recs \<longrightarrow>
      (\<forall>r \<in> set recs. rAction r \<in> {''buy'', ''wait''} \<and> rAction r \<noteq> ''hold'')"
    by fastforce
  from a have "Action (calculateAllocation e ticker score budget regime) \<noteq> ''hold''" by auto
  with a b show ?thesis by blast
qed

text \<open>
  With an empty database every core ticker scores 0.2 and is bought at a quarter of its
  share.
\<close>

theorem engine_never_holds_witness:
  "map_sum id (map (\<lambda>r. (rTicker r, rAction r, rAmount r, rConfidenceScore r)))
     (fst (GenerateRecommendations (NewEngine db_no_rows DefaultConfig) 1000)) =
     Inr [(''SPY'', ''buy'', 100, 0.2), (''QQQ'', ''buy'', 75, 0.2),
          (''VOO'', ''buy'', 50, 0.2), (''VTI'', ''buy'', 25, 0.2)] \<and>
   Action (calculateAllocation (NewEngine db_no_rows DefaultConfig) ''PLTR'' (score_of 0.50 ''neutral'') 1000 RegimeCalm) = ''wait''"
  using engine_never_holds [of "NewEngine db_no_rows DefaultConfig" "''PLTR''" "score_of 0.50 ''neutral''" 1000 RegimeCalm]
  by (simp add: GenerateRecommendations_def detectMarketRegime_def getTrackedTickers_def
      getTickerConfidenceScore_def FetchCreatorAccuracy_def CalculateConfidence_def
      creator_consensus_def technical_alignment_def volume_confirmation_def
      historical_accuracy_def calculateAllocation_def coreHoldings_def DefaultWeights_def
      NewEngine_def DefaultConfig_def db_no_rows_def zeroNullFloat64_def zeroNullInt64_def
      score_of_def Let_def)

end
